theory Spec2Isabelle
  imports Complex_Main "HOL-Library.Sublist"
begin

section \<open>Python values, strings and exceptions\<close>

text \<open>
  A Python \<^verbatim>\<open>str\<close> is a sequence of Unicode code points; a code point is a natural
  number. The dictionary keys of the report are ASCII literals of the source and are kept
  as Isabelle strings.
\<close>

type_synonym pystr = "nat list"

definition lit :: "string \<Rightarrow> pystr" where
  "lit s = map of_char s"

text \<open>
  A floating-point number is a real number, an infinity or NaN. Arithmetic on finite
  numbers is exact: rounding, overflow and signed zeros are not modelled. The results of
  the external scorers are taken as finite and are plain reals; the loss of the language
  model, which is NaN when no target is left to score, and what is computed from it are
  of this type.
\<close>

datatype pyfloat = Finite real | PosInf | NegInf | NaN

text \<open>\<^verbatim>\<open>x * n\<close> and \<^verbatim>\<open>x / n\<close> for an integer \<open>n \<ge> 0\<close>, \<^verbatim>\<open>x + y\<close>, the sum of a tensor's
  items and \<^verbatim>\<open>torch.exp\<close>, as IEEE 754 has them on infinities and NaN.\<close>

fun fmul_nat :: "pyfloat \<Rightarrow> nat \<Rightarrow> pyfloat" where
  "fmul_nat (Finite r) n = Finite (r * real n)"
| "fmul_nat PosInf n = (if n = 0 then NaN else PosInf)"
| "fmul_nat NegInf n = (if n = 0 then NaN else NegInf)"
| "fmul_nat NaN n = NaN"

fun fadd :: "pyfloat \<Rightarrow> pyfloat \<Rightarrow> pyfloat" where
  "fadd (Finite a) (Finite b) = Finite (a + b)"
| "fadd NaN y = NaN"
| "fadd x NaN = NaN"
| "fadd PosInf NegInf = NaN"
| "fadd NegInf PosInf = NaN"
| "fadd PosInf y = PosInf"
| "fadd x PosInf = PosInf"
| "fadd NegInf y = NegInf"
| "fadd x NegInf = NegInf"

definition fsum :: "pyfloat list \<Rightarrow> pyfloat" where
  "fsum xs = foldl fadd (Finite 0) xs"

fun fdiv_nat :: "pyfloat \<Rightarrow> nat \<Rightarrow> pyfloat" where
  "fdiv_nat (Finite r) n =
     (if n = 0 then (if r > 0 then PosInf else if r < 0 then NegInf else NaN)
      else Finite (r / real n))"
| "fdiv_nat PosInf n = PosInf"
| "fdiv_nat NegInf n = NegInf"
| "fdiv_nat NaN n = NaN"

fun fexp :: "pyfloat \<Rightarrow> pyfloat" where
  "fexp (Finite r) = Finite (exp r)"
| "fexp PosInf = PosInf"
| "fexp NegInf = Finite 0"
| "fexp NaN = NaN"

text \<open>
  The values a report holds, each tagged with its Python type: \<^verbatim>\<open>int\<close>, \<^verbatim>\<open>float\<close>,
  \<^verbatim>\<open>bool\<close>, and the NumPy scalars \<^verbatim>\<open>numpy.float32\<close> (an item of the array that
  \<^verbatim>\<open>cosine_similarity\<close> returns for the encoder's float32 embeddings) and \<^verbatim>\<open>numpy.bool_\<close>
  (a comparison of such an item with a threshold).
\<close>

datatype pyval =
    PyInt int
  | PyFloat pyfloat
  | PyBool bool
  | NumpyFloat32 real
  | NumpyBool bool

text \<open>
  A value is a float when it is a floating-point number, a Python \<^verbatim>\<open>float\<close> or a NumPy
  floating scalar, and a boolean when it is a \<^verbatim>\<open>bool\<close> or a \<^verbatim>\<open>numpy.bool_\<close>: the
  docstrings of the module give \<^verbatim>\<open>float\<close> for what \<^verbatim>\<open>evaluate_semantic_similarity\<close>
  returns and \<^verbatim>\<open>bool\<close> for what the threshold methods return. An \<^verbatim>\<open>int\<close> is neither.
\<close>

fun is_float :: "pyval \<Rightarrow> bool" where
  "is_float (PyFloat x) = True"
| "is_float (NumpyFloat32 r) = True"
| "is_float v = False"

fun is_bool :: "pyval \<Rightarrow> bool" where
  "is_bool (PyBool b) = True"
| "is_bool (NumpyBool b) = True"
| "is_bool v = False"

text \<open>The number a value stands for, when it is finite.\<close>

fun num :: "pyval \<Rightarrow> real" where
  "num (PyInt i) = of_int i"
| "num (PyFloat (Finite r)) = r"
| "num (PyBool b) = of_bool b"
| "num (NumpyFloat32 r) = r"
| "num (NumpyBool b) = of_bool b"

text \<open>
  Exceptions are values. \<open>LibraryError\<close> stands for whatever an external library call
  raises; the other constructors are the exceptions the module's own expressions raise.
\<close>

datatype error =
    ZeroDivisionError
  | IndexError
  | ValueError
  | TypeError
  | RuntimeError
  | UnboundLocalError
  | LibraryError string

definition bind_err :: "error + 'a \<Rightarrow> ('a \<Rightarrow> error + 'b) \<Rightarrow> error + 'b" where
  "bind_err m f = (case m of Inl e \<Rightarrow> Inl e | Inr a \<Rightarrow> f a)"

text \<open>A list comprehension whose element expression may raise: left to right, the first
  exception ends it.\<close>

fun map_err :: "('a \<Rightarrow> error + 'b) \<Rightarrow> 'a list \<Rightarrow> error + 'b list" where
  "map_err f [] = Inr []"
| "map_err f (x # xs) =
     bind_err (f x) (\<lambda>y. bind_err (map_err f xs) (\<lambda>ys. Inr (y # ys)))"

text \<open>\<^verbatim>\<open>xs[i]\<close> for an index \<open>i \<ge> 0\<close>, and \<^verbatim>\<open>xs.index(x)\<close>.\<close>

definition getitem :: "'a list \<Rightarrow> nat \<Rightarrow> error + 'a" where
  "getitem xs i = (if i < length xs then Inr (xs ! i) else Inl IndexError)"

fun list_index :: "'a list \<Rightarrow> 'a \<Rightarrow> error + nat" where
  "list_index [] x = Inl ValueError"
| "list_index (y # ys) x =
     (if y = x then Inr 0 else bind_err (list_index ys x) (\<lambda>i. Inr (Suc i)))"

text \<open>\<^verbatim>\<open>sum(xs) / len(xs)\<close>: true division of a number by a length; Python raises on a
  zero divisor.\<close>

definition truediv :: "real \<Rightarrow> nat \<Rightarrow> error + real" where
  "truediv a n = (if n = 0 then Inl ZeroDivisionError else Inr (a / real n))"

text \<open>\<^verbatim>\<open>xs[b:e]\<close> for \<open>0 \<le> b\<close> and \<open>0 \<le> e\<close>.\<close>

definition slice :: "'a list \<Rightarrow> nat \<Rightarrow> nat \<Rightarrow> 'a list" where
  "slice xs b e = drop b (take e xs)"

text \<open>\<^verbatim>\<open>range(0, n, step)\<close> for a positive step.\<close>

definition py_range :: "nat \<Rightarrow> nat \<Rightarrow> nat list" where
  "py_range n step = map (\<lambda>k. k * step) [0..<(n + step - 1) div step]"

subsection \<open>\<^verbatim>\<open>str.split()\<close> and \<^verbatim>\<open>nltk.util.ngrams\<close>\<close>

text \<open>The code points for which \<^verbatim>\<open>str.isspace\<close> holds.\<close>

definition isspace :: "nat \<Rightarrow> bool" where
  "isspace c \<longleftrightarrow>
     (9 \<le> c \<and> c \<le> 13) \<or> (28 \<le> c \<and> c \<le> 32) \<or> c = 133 \<or> c = 160 \<or> c = 5760 \<or>
     (8192 \<le> c \<and> c \<le> 8202) \<or> c = 8232 \<or> c = 8233 \<or> c = 8239 \<or> c = 8287 \<or> c = 12288"

text \<open>\<^verbatim>\<open>s.split()\<close>: the maximal runs of non-whitespace code points, in order.
  \<open>split_from cur s\<close> carries the token being read.\<close>

fun split_from :: "pystr \<Rightarrow> pystr \<Rightarrow> pystr list" where
  "split_from cur [] = (if cur = [] then [] else [cur])"
| "split_from cur (c # cs) =
     (if isspace c then (if cur = [] then split_from [] cs else cur # split_from [] cs)
      else split_from (cur @ [c]) cs)"

definition str_split :: "pystr \<Rightarrow> pystr list" where
  "str_split s = split_from [] s"

text \<open>\<^verbatim>\<open>ngrams(seq, n)\<close>: the windows of \<open>n\<close> adjacent items, none when the sequence is
  shorter than \<open>n\<close>. A tuple is a list here.\<close>

definition ngrams :: "'a list \<Rightarrow> nat \<Rightarrow> 'a list list" where
  "ngrams xs n = map (\<lambda>i. take n (drop i xs)) [0..<Suc (length xs) - n]"

section \<open>The metrics that need no model handle\<close>

text \<open>
  \<^verbatim>\<open>
  def evaluate_diversity(self, texts):
      all_tokens = [tok for text in texts for tok in text.split()]
      unique_bigrams = set(ngrams(all_tokens, 2))
      diversity_score = len(unique_bigrams) / len(all_tokens) if all_tokens else 0
      return diversity_score
  \<close>
  The set of bigrams is a duplicate-free list. The default of the empty case is the
  integer \<^verbatim>\<open>0\<close>, the quotient is a float.
\<close>

definition all_tokens_of :: "pystr list \<Rightarrow> pystr list" where
  "all_tokens_of texts = concat (map str_split texts)"

definition evaluate_diversity :: "pystr list \<Rightarrow> pyval" where
  "evaluate_diversity texts =
     (let all_tokens = all_tokens_of texts;
          unique_bigrams = remdups (ngrams all_tokens 2)
      in if all_tokens \<noteq> []
         then PyFloat (Finite (real (length unique_bigrams) / real (length all_tokens)))
         else PyInt 0)"

section \<open>External libraries and model handles\<close>

text \<open>
  Every scorer, tokenizer, classifier and model of the module is an external library.
  None is reimplemented: each is a parameter, a function that returns its result or
  raises. The record \<open>library\<close> holds what the module imports at top level, the record
  \<open>RAGEvaluator\<close> the handles that \<^verbatim>\<open>__init__\<close> stores in \<^verbatim>\<open>self\<close>.
\<close>

text \<open>One item of a text-classification pipeline's output,
  \<^verbatim>\<open>{'label': ..., 'score': ...}\<close>, and one of a zero-shot pipeline's,
  \<^verbatim>\<open>{'labels': [...], 'scores': [...]}\<close>.\<close>

record prediction =
  label :: pystr
  score :: real

record zero_shot =
  labels :: "pystr list"
  scores :: "real list"

text \<open>What \<^verbatim>\<open>pipeline(task, model=...)\<close> returns: a callable of the task's call shape.\<close>

datatype pipe =
    ZeroShotClassification "pystr list \<Rightarrow> pystr list \<Rightarrow> error + zero_shot list"
  | TextClassification "pystr \<Rightarrow> error + prediction list"

text \<open>Calling a pipeline with the call shape of the other task is a \<^verbatim>\<open>TypeError\<close>.\<close>

fun call_zero_shot :: "pipe \<Rightarrow> pystr list \<Rightarrow> pystr list \<Rightarrow> error + zero_shot list" where
  "call_zero_shot (ZeroShotClassification f) texts candidate_labels = f texts candidate_labels"
| "call_zero_shot (TextClassification g) texts candidate_labels = Inl TypeError"

fun call_text_classification :: "pipe \<Rightarrow> pystr \<Rightarrow> error + prediction list" where
  "call_text_classification (TextClassification g) t = g t"
| "call_text_classification (ZeroShotClassification f) t = Inl TypeError"

text \<open>The causal language model: \<^verbatim>\<open>config.n_positions\<close>, and the forward pass
  \<^verbatim>\<open>model(input_ids, labels=target_ids)[0]\<close>, the loss: the mean over the scored targets,
  NaN when there is none.\<close>

record gpt2_lm =
  n_positions :: nat
  forward :: "int list \<Rightarrow> int list \<Rightarrow> error + pyfloat"

type_synonym tokenizer = "pystr \<Rightarrow> error + int list"

type_synonym encoder = "pystr list \<Rightarrow> error + real list list"

text \<open>
  The module's imports. \<open>rouge1_fmeasure ref cand\<close> is
  \<^verbatim>\<open>RougeScorer(['rouge1', 'rouge2', 'rougeL'], use_stemmer=True).score(ref, cand)['rouge1'].fmeasure\<close>;
  \<open>bert_score cands refs\<close> is the triple \<^verbatim>\<open>(P.mean().item(), R.mean().item(), F1.mean().item())\<close>
  of the tensors \<^verbatim>\<open>score(cands, refs, lang="en", model_type='bert-base-multilingual-cased')\<close>
  returns.
\<close>

record library =
  corpus_bleu :: "pystr list \<Rightarrow> pystr list list \<Rightarrow> error + real"
  rouge1_fmeasure :: "pystr \<Rightarrow> pystr \<Rightarrow> error + real"
  bert_score :: "pystr list \<Rightarrow> pystr list \<Rightarrow> error + real \<times> real \<times> real"
  word_tokenize :: "pystr \<Rightarrow> error + pystr list"
  meteor_score :: "pystr list list \<Rightarrow> pystr list \<Rightarrow> error + real"
  sentence_chrf :: "pystr \<Rightarrow> pystr \<Rightarrow> error + real"
  flesch_reading_ease :: "pystr \<Rightarrow> error + real"
  flesch_kincaid_grade :: "pystr \<Rightarrow> error + real"
  GPT2LMHeadModel_from_pretrained :: "string \<Rightarrow> error + gpt2_lm"
  GPT2Tokenizer_from_pretrained :: "string \<Rightarrow> error + tokenizer"
  pipeline :: "string \<Rightarrow> string \<Rightarrow> error + pipe"
  SentenceTransformer :: "string \<Rightarrow> error + encoder"

record RAGEvaluator =
  gpt2_model :: gpt2_lm
  gpt2_tokenizer :: tokenizer
  bias_pipeline :: pipe
  sentence_transformer :: encoder
  toxicity_pipeline :: pipe

subsection \<open>\<^verbatim>\<open>sklearn.metrics.pairwise.cosine_similarity\<close> on two row vectors\<close>

text \<open>
  The library normalises each row by its Euclidean norm (a zero norm is replaced by 1)
  and returns the dot product; rows of different lengths are a \<^verbatim>\<open>ValueError\<close>.
\<close>

definition row_norm :: "real list \<Rightarrow> real" where
  "row_norm x = sqrt (sum_list (map (\<lambda>v. v * v) x))"

definition normalize :: "real list \<Rightarrow> real list" where
  "normalize x = (let n = row_norm x in map (\<lambda>v. v / (if n = 0 then 1 else n)) x)"

definition dot :: "real list \<Rightarrow> real list \<Rightarrow> real" where
  "dot x y = sum_list (map (\<lambda>(a, b). a * b) (zip x y))"

definition cosine_similarity :: "real list \<Rightarrow> real list \<Rightarrow> error + real" where
  "cosine_similarity x y =
     (if length x \<noteq> length y then Inl ValueError else Inr (dot (normalize x) (normalize y)))"

section \<open>The metric methods of \<^verbatim>\<open>RAGEvaluator\<close>\<close>

text \<open>
  \<^verbatim>\<open>
  def evaluate_bleu_rouge(self, candidates, references):
      bleu_score = corpus_bleu(candidates, [references]).score
      scorer = rouge_scorer.RougeScorer(['rouge1', 'rouge2', 'rougeL'], use_stemmer=True)
      rouge_scores = [scorer.score(ref, cand) for ref, cand in zip(references, candidates)]
      rouge1 = sum([score['rouge1'].fmeasure for score in rouge_scores]) / len(rouge_scores)
      return bleu_score, rouge1
  \<close>
\<close>

definition rouge_scores :: "library \<Rightarrow> pystr list \<Rightarrow> pystr list \<Rightarrow> error + real list" where
  "rouge_scores L candidates references =
     map_err (\<lambda>(ref, cand). rouge1_fmeasure L ref cand) (zip references candidates)"

definition evaluate_bleu_rouge ::
  "library \<Rightarrow> pystr list \<Rightarrow> pystr list \<Rightarrow> error + real \<times> real" where
  "evaluate_bleu_rouge L candidates references =
     bind_err (corpus_bleu L candidates [references]) (\<lambda>bleu_score.
     bind_err (rouge_scores L candidates references) (\<lambda>scores.
     bind_err (truediv (sum_list scores) (length scores)) (\<lambda>rouge1.
     Inr (bleu_score, rouge1))))"

definition evaluate_bert_score ::
  "library \<Rightarrow> pystr list \<Rightarrow> pystr list \<Rightarrow> error + real \<times> real \<times> real" where
  "evaluate_bert_score L candidates references = bert_score L candidates references"

text \<open>
  \<^verbatim>\<open>
  def evaluate_perplexity(self, text):
      encodings = self.gpt2_tokenizer(text, return_tensors='pt')
      max_length = self.gpt2_model.config.n_positions
      stride = 512
      lls = []
      for i in range(0, encodings.input_ids.size(1), stride):
          begin_loc = max(i + stride - max_length, 0)
          end_loc = min(i + stride, encodings.input_ids.size(1))
          trg_len = end_loc - i
          input_ids = encodings.input_ids[:, begin_loc:end_loc]
          target_ids = input_ids.clone()
          target_ids[:, :-trg_len] = -100
          with torch.no_grad():
              outputs = self.gpt2_model(input_ids, labels=target_ids)
              log_likelihood = outputs[0] * trg_len
          lls.append(log_likelihood)
      ppl = torch.exp(torch.stack(lls).sum() / end_loc)
      return ppl.item()
  \<close>
  The batch dimension of the tensors is 1 and is left out. The loop state is the list
  \<open>lls\<close> and the variable \<open>end_loc\<close>, unbound before the first iteration.
  \<^verbatim>\<open>torch.stack\<close> raises a \<^verbatim>\<open>RuntimeError\<close> on an empty list.
\<close>

definition stride :: nat where
  "stride = 512"

text \<open>\<^verbatim>\<open>target_ids[:, :-trg_len] = -100\<close>: the slice \<^verbatim>\<open>:-k\<close> ends \<open>k\<close> items before the
  end for \<open>k > 0\<close>, and is \<^verbatim>\<open>:0\<close>, empty, for \<open>k = 0\<close>.\<close>

definition mask_targets :: "int list \<Rightarrow> nat \<Rightarrow> int list" where
  "mask_targets ids trg_len =
     (let m = (if trg_len = 0 then 0 else length ids - trg_len)
      in replicate m (- 100) @ drop m ids)"

fun perplexity_loop ::
  "gpt2_lm \<Rightarrow> int list \<Rightarrow> nat list \<Rightarrow> pyfloat list \<times> nat option
     \<Rightarrow> error + pyfloat list \<times> nat option" where
  "perplexity_loop lm ids [] st = Inr st"
| "perplexity_loop lm ids (i # rest) (lls, end_loc) =
     (let max_length = n_positions lm;
          begin_loc = nat (max (int i + int stride - int max_length) 0);
          end_loc' = min (i + stride) (length ids);
          trg_len = end_loc' - i;
          input_ids = slice ids begin_loc end_loc';
          target_ids = mask_targets input_ids trg_len
      in bind_err (forward lm input_ids target_ids) (\<lambda>loss.
           perplexity_loop lm ids rest (lls @ [fmul_nat loss trg_len], Some end_loc')))"

definition evaluate_perplexity :: "RAGEvaluator \<Rightarrow> pystr \<Rightarrow> error + pyfloat" where
  "evaluate_perplexity self t =
     bind_err (gpt2_tokenizer self t) (\<lambda>input_ids.
     bind_err (perplexity_loop (gpt2_model self) input_ids
                 (py_range (length input_ids) stride) ([], None)) (\<lambda>(lls, end_loc).
       if lls = [] then Inl RuntimeError
       else (case end_loc of
               None \<Rightarrow> Inl UnboundLocalError
             | Some e \<Rightarrow> Inr (fexp (fdiv_nat (fsum lls) e)))))"

text \<open>
  \<^verbatim>\<open>
  def evaluate_racial_bias(self, text):
      results = self.bias_pipeline([text], candidate_labels=["hate speech", "not hate speech"])
      bias_score = results[0]['scores'][results[0]['labels'].index('hate speech')]
      return bias_score
  \<close>
\<close>

definition evaluate_racial_bias :: "RAGEvaluator \<Rightarrow> pystr \<Rightarrow> error + real" where
  "evaluate_racial_bias self t =
     bind_err (call_zero_shot (bias_pipeline self) [t]
                 [lit ''hate speech'', lit ''not hate speech'']) (\<lambda>results.
     bind_err (getitem results 0) (\<lambda>r0.
     bind_err (list_index (labels r0) (lit ''hate speech'')) (\<lambda>i.
     getitem (scores r0) i)))"

text \<open>
  \<^verbatim>\<open>
  def evaluate_meteor(self, candidates, references):
      nltk.download('punkt', quiet=True)
      meteor_scores = [
          meteor_score([word_tokenize(ref)], word_tokenize(cand))
          for ref, cand in zip(references, candidates)
      ]
      return sum(meteor_scores) / len(meteor_scores)

  def evaluate_chrf(self, candidates, references):
      chrf_scores = [sentence_chrf(ref, cand) for ref, cand in zip(references, candidates)]
      return sum(chrf_scores) / len(chrf_scores)
  \<close>
  \<^verbatim>\<open>nltk.download\<close> reports a failure through its return value, which the method drops;
  it has no part in the result.
\<close>

definition meteor_scores :: "library \<Rightarrow> pystr list \<Rightarrow> pystr list \<Rightarrow> error + real list" where
  "meteor_scores L candidates references =
     map_err (\<lambda>(ref, cand).
         bind_err (word_tokenize L ref) (\<lambda>ref_tokens.
         bind_err (word_tokenize L cand) (\<lambda>cand_tokens.
         meteor_score L [ref_tokens] cand_tokens)))
       (zip references candidates)"

definition evaluate_meteor :: "library \<Rightarrow> pystr list \<Rightarrow> pystr list \<Rightarrow> error + real" where
  "evaluate_meteor L candidates references =
     bind_err (meteor_scores L candidates references) (\<lambda>scores.
     truediv (sum_list scores) (length scores))"

definition chrf_scores :: "library \<Rightarrow> pystr list \<Rightarrow> pystr list \<Rightarrow> error + real list" where
  "chrf_scores L candidates references =
     map_err (\<lambda>(ref, cand). sentence_chrf L ref cand) (zip references candidates)"

definition evaluate_chrf :: "library \<Rightarrow> pystr list \<Rightarrow> pystr list \<Rightarrow> error + real" where
  "evaluate_chrf L candidates references =
     bind_err (chrf_scores L candidates references) (\<lambda>scores.
     truediv (sum_list scores) (length scores))"

text \<open>
  \<^verbatim>\<open>
  def evaluate_readability(self, text):
      flesch_ease = flesch_reading_ease(text)
      flesch_grade = flesch_kincaid_grade(text)
      return flesch_ease, flesch_grade
  \<close>
\<close>

definition evaluate_readability :: "library \<Rightarrow> pystr \<Rightarrow> error + real \<times> real" where
  "evaluate_readability L t =
     bind_err (flesch_reading_ease L t) (\<lambda>flesch_ease.
     bind_err (flesch_kincaid_grade L t) (\<lambda>flesch_grade.
     Inr (flesch_ease, flesch_grade)))"

text \<open>
  \<^verbatim>\<open>
  def evaluate_semantic_similarity(self, candidate, reference):
      embeddings = self.sentence_transformer.encode([candidate, reference])
      return cosine_similarity(embeddings[0].reshape(1, -1), embeddings[1].reshape(1, -1))[0][0]

  def evaluate_factual_consistency(self, candidate, reference, threshold=0.8):
      similarity = self.evaluate_semantic_similarity(candidate, reference)
      return similarity >= threshold
  \<close>
  The three relevance methods have the body of \<^verbatim>\<open>evaluate_factual_consistency\<close>, on
  \<^verbatim>\<open>(question, response)\<close>, \<^verbatim>\<open>(context, response)\<close> and \<^verbatim>\<open>(question, response)\<close>, with the
  default threshold 0.7.
\<close>

definition evaluate_semantic_similarity :: "RAGEvaluator \<Rightarrow> pystr \<Rightarrow> pystr \<Rightarrow> error + real" where
  "evaluate_semantic_similarity self candidate reference =
     bind_err (sentence_transformer self [candidate, reference]) (\<lambda>embeddings.
     bind_err (getitem embeddings 0) (\<lambda>e0.
     bind_err (getitem embeddings 1) (\<lambda>e1.
     cosine_similarity e0 e1)))"

definition evaluate_factual_consistency ::
  "RAGEvaluator \<Rightarrow> pystr \<Rightarrow> pystr \<Rightarrow> real \<Rightarrow> error + bool" where
  "evaluate_factual_consistency self candidate reference threshold =
     bind_err (evaluate_semantic_similarity self candidate reference) (\<lambda>similarity.
     Inr (similarity \<ge> threshold))"

definition evaluate_question_relevance ::
  "RAGEvaluator \<Rightarrow> pystr \<Rightarrow> pystr \<Rightarrow> real \<Rightarrow> error + bool" where
  "evaluate_question_relevance self question response threshold =
     bind_err (evaluate_semantic_similarity self question response) (\<lambda>similarity.
     Inr (similarity \<ge> threshold))"

definition evaluate_context_relevance ::
  "RAGEvaluator \<Rightarrow> pystr \<Rightarrow> pystr \<Rightarrow> real \<Rightarrow> error + bool" where
  "evaluate_context_relevance self context_text response threshold =
     bind_err (evaluate_semantic_similarity self context_text response) (\<lambda>similarity.
     Inr (similarity \<ge> threshold))"

definition evaluate_answer_relevance ::
  "RAGEvaluator \<Rightarrow> pystr \<Rightarrow> pystr \<Rightarrow> real \<Rightarrow> error + bool" where
  "evaluate_answer_relevance self question response threshold =
     bind_err (evaluate_semantic_similarity self question response) (\<lambda>similarity.
     Inr (similarity \<ge> threshold))"

text \<open>The default thresholds of the signatures.\<close>

definition factual_consistency_threshold :: real where
  "factual_consistency_threshold = 8 / 10"

definition relevance_threshold :: real where
  "relevance_threshold = 7 / 10"

text \<open>
  \<^verbatim>\<open>
  def evaluate_toxicity(self, text):
      result = self.toxicity_pipeline(text)[0]
      return result['score'] if 'toxic' in result['label'] else 0.0
  \<close>
  \<^verbatim>\<open>a in b\<close> on strings is the contiguous-substring test, \<^const>\<open>sublist\<close>.
\<close>

definition evaluate_toxicity :: "RAGEvaluator \<Rightarrow> pystr \<Rightarrow> error + real" where
  "evaluate_toxicity self t =
     bind_err (call_text_classification (toxicity_pipeline self) t) (\<lambda>results.
     bind_err (getitem results 0) (\<lambda>result.
     Inr (if sublist (lit ''toxic'') (label result) then score result else 0)))"

section \<open>The aggregating method\<close>

text \<open>
  \<^verbatim>\<open>
  def evaluate_all(self, question, response, reference):
      candidates = [response]
      references = [reference]
      bleu, rouge1 = self.evaluate_bleu_rouge(candidates, references)
      bert_p, bert_r, bert_f1 = self.evaluate_bert_score(candidates, references)
      perplexity = self.evaluate_perplexity(response)
      diversity = self.evaluate_diversity(candidates)
      racial_bias = self.evaluate_racial_bias(response)
      meteor = self.evaluate_meteor(candidates, references)
      chrf = self.evaluate_chrf(candidates, references)
      flesch_ease, flesch_grade = self.evaluate_readability(response)
      semantic_similarity = self.evaluate_semantic_similarity(response, reference)
      factual_consistency = self.evaluate_factual_consistency(response, reference)
      question_relevance = self.evaluate_question_relevance(question, response)
      context_relevance = self.evaluate_question_relevance(reference, response)
      answer_relevance = self.evaluate_question_relevance(question, response)
      toxicity = self.evaluate_toxicity(response)
      return { "BLEU": bleu, "ROUGE-1": rouge1, ..., "Toxicity": toxicity }
  \<close>
  The report is the dictionary literal as an association list, in the literal's order. A
  call that raises ends the method: nothing after it runs and no dictionary is built.
  Each value carries the type its method returns: \<^verbatim>\<open>float\<close> for the scores, read off
  with \<^verbatim>\<open>.item()\<close>, \<^verbatim>\<open>.score\<close> or a Python division, \<^verbatim>\<open>numpy.float32\<close> for the
  similarity, \<^verbatim>\<open>numpy.bool_\<close> for its comparisons with a threshold, and for the diversity
  what \<^verbatim>\<open>evaluate_diversity\<close> returns.
\<close>

definition evaluate_all ::
  "library \<Rightarrow> RAGEvaluator \<Rightarrow> pystr \<Rightarrow> pystr \<Rightarrow> pystr \<Rightarrow> error + (string \<times> pyval) list" where
  "evaluate_all L self question response reference =
     (let candidates = [response]; references = [reference] in
      bind_err (evaluate_bleu_rouge L candidates references) (\<lambda>(bleu, rouge1).
      bind_err (evaluate_bert_score L candidates references) (\<lambda>(bert_p, bert_r, bert_f1).
      bind_err (evaluate_perplexity self response) (\<lambda>perplexity.
      (let diversity = evaluate_diversity candidates in
      bind_err (evaluate_racial_bias self response) (\<lambda>racial_bias.
      bind_err (evaluate_meteor L candidates references) (\<lambda>meteor.
      bind_err (evaluate_chrf L candidates references) (\<lambda>chrf.
      bind_err (evaluate_readability L response) (\<lambda>(flesch_ease, flesch_grade).
      bind_err (evaluate_semantic_similarity self response reference) (\<lambda>semantic_similarity.
      bind_err (evaluate_factual_consistency self response reference
                  factual_consistency_threshold) (\<lambda>factual_consistency.
      bind_err (evaluate_question_relevance self question response relevance_threshold)
        (\<lambda>question_relevance.
      bind_err (evaluate_question_relevance self reference response relevance_threshold)
        (\<lambda>context_relevance.
      bind_err (evaluate_question_relevance self question response relevance_threshold)
        (\<lambda>answer_relevance.
      bind_err (evaluate_toxicity self response) (\<lambda>toxicity.
      Inr [(''BLEU'', PyFloat (Finite bleu)),
           (''ROUGE-1'', PyFloat (Finite rouge1)),
           (''BERT P'', PyFloat (Finite bert_p)),
           (''BERT R'', PyFloat (Finite bert_r)),
           (''BERT F1'', PyFloat (Finite bert_f1)),
           (''Perplexity'', PyFloat perplexity),
           (''Diversity'', diversity),
           (''Racial Bias'', PyFloat (Finite racial_bias)),
           (''METEOR'', PyFloat (Finite meteor)),
           (''CHRF'', PyFloat (Finite chrf)),
           (''Flesch Reading Ease'', PyFloat (Finite flesch_ease)),
           (''Flesch-Kincaid Grade'', PyFloat (Finite flesch_grade)),
           (''Semantic Similarity'', NumpyFloat32 semantic_similarity),
           (''Factual Consistency'', NumpyBool factual_consistency),
           (''Question Relevance'', NumpyBool question_relevance),
           (''Context Relevance'', NumpyBool context_relevance),
           (''Answer Relevance'', NumpyBool answer_relevance),
           (''Toxicity'', PyFloat (Finite toxicity))])))))))))))))))"

text \<open>The 18 keys of the report, and the four whose values are booleans.\<close>

definition report_keys :: "string list" where
  "report_keys =
     [''BLEU'', ''ROUGE-1'', ''BERT P'', ''BERT R'', ''BERT F1'', ''Perplexity'',
      ''Diversity'', ''Racial Bias'', ''METEOR'', ''CHRF'', ''Flesch Reading Ease'',
      ''Flesch-Kincaid Grade'', ''Semantic Similarity'', ''Factual Consistency'',
      ''Question Relevance'', ''Context Relevance'', ''Answer Relevance'', ''Toxicity'']"

definition bool_keys :: "string list" where
  "bool_keys =
     [''Factual Consistency'', ''Question Relevance'', ''Context Relevance'',
      ''Answer Relevance'']"

text \<open>The outcome of each metric call of \<^verbatim>\<open>evaluate_all\<close>, in the order of the calls:
  the exception it raises, if any. \<^verbatim>\<open>evaluate_diversity\<close> cannot raise.\<close>

fun raised :: "error + 'a \<Rightarrow> error option" where
  "raised (Inl e) = Some e"
| "raised (Inr a) = None"

definition metric_calls ::
  "library \<Rightarrow> RAGEvaluator \<Rightarrow> pystr \<Rightarrow> pystr \<Rightarrow> pystr \<Rightarrow> error option list" where
  "metric_calls L self question response reference =
     [raised (evaluate_bleu_rouge L [response] [reference]),
      raised (evaluate_bert_score L [response] [reference]),
      raised (evaluate_perplexity self response),
      None,
      raised (evaluate_racial_bias self response),
      raised (evaluate_meteor L [response] [reference]),
      raised (evaluate_chrf L [response] [reference]),
      raised (evaluate_readability L response),
      raised (evaluate_semantic_similarity self response reference),
      raised (evaluate_factual_consistency self response reference factual_consistency_threshold),
      raised (evaluate_question_relevance self question response relevance_threshold),
      raised (evaluate_question_relevance self reference response relevance_threshold),
      raised (evaluate_question_relevance self question response relevance_threshold),
      raised (evaluate_toxicity self response)]"

fun first_raised :: "error option list \<Rightarrow> error option" where
  "first_raised [] = None"
| "first_raised (None # rest) = first_raised rest"
| "first_raised (Some e # rest) = Some e"

section \<open>Construction\<close>

text \<open>
  \<^verbatim>\<open>
  def __init__(self):
      self.gpt2_model, self.gpt2_tokenizer = self.load_gpt2_model()
      self.bias_pipeline = pipeline("zero-shot-classification", model="Hate-speech-CNERG/dehatebert-mono-english")
      self.gpt2_model, self.gpt2_tokenizer = self.load_gpt2_model()
      self.sentence_transformer = SentenceTransformer('all-mpnet-base-v2')
      self.toxicity_pipeline = pipeline("text-classification", model="unitary/toxic-bert")

  def load_gpt2_model(self):
      model = GPT2LMHeadModel.from_pretrained('gpt2')
      tokenizer = GPT2Tokenizer.from_pretrained('gpt2')
      return model, tokenizer
  \<close>
  Loading a model is an effect. The state threaded through construction is the list of
  the loader calls made so far; a loader that raises ends construction.
\<close>

datatype load_call =
    LoadCausalLM string
  | LoadTokenizer string
  | LoadPipeline string string
  | LoadSentenceTransformer string

type_synonym 'a loading = "load_call list \<Rightarrow> (error + 'a) \<times> load_call list"

definition call_loader :: "load_call \<Rightarrow> error + 'a \<Rightarrow> 'a loading" where
  "call_loader c r calls = (r, calls @ [c])"

definition bind_load :: "'a loading \<Rightarrow> ('a \<Rightarrow> 'b loading) \<Rightarrow> 'b loading" where
  "bind_load m f calls =
     (case m calls of (Inl e, calls') \<Rightarrow> (Inl e, calls') | (Inr a, calls') \<Rightarrow> f a calls')"

definition return_load :: "'a \<Rightarrow> 'a loading" where
  "return_load a calls = (Inr a, calls)"

definition load_gpt2_model :: "library \<Rightarrow> (gpt2_lm \<times> tokenizer) loading" where
  "load_gpt2_model L =
     bind_load (call_loader (LoadCausalLM ''gpt2'') (GPT2LMHeadModel_from_pretrained L ''gpt2''))
       (\<lambda>model.
     bind_load (call_loader (LoadTokenizer ''gpt2'') (GPT2Tokenizer_from_pretrained L ''gpt2''))
       (\<lambda>tok.
     return_load (model, tok)))"

definition init :: "library \<Rightarrow> RAGEvaluator loading" where
  "init L =
     bind_load (load_gpt2_model L) (\<lambda>(model1, tokenizer1).
     bind_load (call_loader
         (LoadPipeline ''zero-shot-classification'' ''Hate-speech-CNERG/dehatebert-mono-english'')
         (pipeline L ''zero-shot-classification'' ''Hate-speech-CNERG/dehatebert-mono-english''))
       (\<lambda>bias.
     bind_load (load_gpt2_model L) (\<lambda>(model2, tokenizer2).
     bind_load (call_loader (LoadSentenceTransformer ''all-mpnet-base-v2'')
         (SentenceTransformer L ''all-mpnet-base-v2'')) (\<lambda>enc.
     bind_load (call_loader (LoadPipeline ''text-classification'' ''unitary/toxic-bert'')
         (pipeline L ''text-classification'' ''unitary/toxic-bert'')) (\<lambda>tox.
     return_load \<lparr>gpt2_model = model2, gpt2_tokenizer = tokenizer2, bias_pipeline = bias,
                  sentence_transformer = enc, toxicity_pipeline = tox\<rparr>)))))"

text \<open>The five capabilities of the facade, each with the loader call that acquires it.\<close>

definition capabilities :: "load_call list" where
  "capabilities =
     [LoadCausalLM ''gpt2'',
      LoadTokenizer ''gpt2'',
      LoadPipeline ''zero-shot-classification'' ''Hate-speech-CNERG/dehatebert-mono-english'',
      LoadSentenceTransformer ''all-mpnet-base-v2'',
      LoadPipeline ''text-classification'' ''unitary/toxic-bert'']"

section \<open>Deterministic stand-ins for the external libraries\<close>

text \<open>
  Fixed, total stand-ins for the libraries and the pretrained models, used to run the
  methods on concrete inputs. The tokenizer gives one token per code point; the language
  model gives the loss 0 and, as GPT-2 does, NaN on a window of at most one token, where
  the shift of the labels leaves no target; the encoder gives the same unit vector for
  every sentence, and the toxicity classifier the label \<^verbatim>\<open>toxic\<close> with score 1/2.
\<close>

definition stub_lm :: gpt2_lm where
  "stub_lm =
     \<lparr>n_positions = 1024,
      forward = (\<lambda>input_ids target_ids. Inr (if length input_ids \<le> 1 then NaN else Finite 0))\<rparr>"

definition stub_tokenizer :: tokenizer where
  "stub_tokenizer = (\<lambda>t. Inr (map int t))"

definition stub_bias :: pipe where
  "stub_bias = ZeroShotClassification (\<lambda>texts candidate_labels.
     Inr (map (\<lambda>t. \<lparr>labels = candidate_labels, scores = map (\<lambda>l. 1 / 2) candidate_labels\<rparr>) texts))"

definition stub_encoder :: encoder where
  "stub_encoder = (\<lambda>sentences. Inr (map (\<lambda>s. [1, 0]) sentences))"

definition stub_toxicity :: pipe where
  "stub_toxicity = TextClassification (\<lambda>t. Inr [\<lparr>label = lit ''toxic'', score = 1 / 2\<rparr>])"

definition stub_library :: library where
  "stub_library =
     \<lparr>corpus_bleu = (\<lambda>cands refs. Inr 0),
      rouge1_fmeasure = (\<lambda>ref cand. Inr 0),
      bert_score = (\<lambda>cands refs. Inr (0, 0, 0)),
      word_tokenize = (\<lambda>t. Inr (str_split t)),
      meteor_score = (\<lambda>refs cand. Inr 0),
      sentence_chrf = (\<lambda>ref cand. Inr 0),
      flesch_reading_ease = (\<lambda>t. Inr 0),
      flesch_kincaid_grade = (\<lambda>t. Inr 0),
      GPT2LMHeadModel_from_pretrained = (\<lambda>name. Inr stub_lm),
      GPT2Tokenizer_from_pretrained = (\<lambda>name. Inr stub_tokenizer),
      pipeline = (\<lambda>task name. Inr (if task = ''zero-shot-classification'' then stub_bias
                                    else stub_toxicity)),
      SentenceTransformer = (\<lambda>name. Inr stub_encoder)\<rparr>"

definition stub_evaluator :: RAGEvaluator where
  "stub_evaluator =
     \<lparr>gpt2_model = stub_lm, gpt2_tokenizer = stub_tokenizer, bias_pipeline = stub_bias,
      sentence_transformer = stub_encoder, toxicity_pipeline = stub_toxicity\<rparr>"

text \<open>A library whose BLEU scorer, as sacrebleu's does when it checks its arguments, reads
  the first hypothesis and so raises an \<^verbatim>\<open>IndexError\<close> on an empty list of hypotheses; it
  is otherwise the stand-in.\<close>

definition checking_bleu_library :: library where
  "checking_bleu_library =
     stub_library\<lparr>corpus_bleu := (\<lambda>cands refs. if cands = [] then Inl IndexError else Inr 0)\<rparr>"

text \<open>An evaluator whose toxicity classifier answers \<^verbatim>\<open>neutral\<close> with score 9/10.\<close>

definition clean_classifier :: RAGEvaluator where
  "clean_classifier = stub_evaluator\<lparr>toxicity_pipeline :=
     TextClassification (\<lambda>t. Inr [\<lparr>label = lit ''neutral'', score = 9 / 10\<rparr>])\<rparr>"

text \<open>An evaluator whose toxicity classifier raises.\<close>

definition failing_toxicity :: RAGEvaluator where
  "failing_toxicity = stub_evaluator\<lparr>toxicity_pipeline :=
     TextClassification (\<lambda>t. Inl (LibraryError ''toxicity''))\<rparr>"

text \<open>The 13 keys whose values are floats for every response.\<close>

definition float_keys :: "string list" where
  "float_keys =
     [''BLEU'', ''ROUGE-1'', ''BERT P'', ''BERT R'', ''BERT F1'', ''Perplexity'',
      ''Racial Bias'', ''METEOR'', ''CHRF'', ''Flesch Reading Ease'',
      ''Flesch-Kincaid Grade'', ''Semantic Similarity'', ''Toxicity'']"

section \<open>Basic facts about the helpers\<close>

lemma bind_err_Inl [simp]: "bind_err (Inl e) f = Inl e"
  by (simp add: bind_err_def)

lemma bind_err_Inr [simp]: "bind_err (Inr a) f = f a"
  by (simp add: bind_err_def)

lemma bind_err_eq_Inr: "bind_err m f = Inr y \<longleftrightarrow> (\<exists>a. m = Inr a \<and> f a = Inr y)"
  by (cases m) simp_all

lemma bind_err_eq_Inl:
  "bind_err m f = Inl e \<longleftrightarrow> m = Inl e \<or> (\<exists>a. m = Inr a \<and> f a = Inl e)"
  by (cases m) simp_all

lemma length_ngrams: "length (ngrams xs n) = Suc (length xs) - n"
  by (simp add: ngrams_def)

lemma ngrams_empty_iff: "ngrams xs 2 = [] \<longleftrightarrow> length xs \<le> 1"
proof -
  have "ngrams xs 2 = [] \<longleftrightarrow> length (ngrams xs 2) = 0" by simp
  also have "\<dots> \<longleftrightarrow> length xs \<le> 1" unfolding length_ngrams by arith
  finally show ?thesis .
qed

section \<open>Lexical diversity\<close>

text \<open>
  Claim C2, as the code has it. For every sequence of texts the value of
  \<^verbatim>\<open>evaluate_diversity\<close> lies in \<open>[0, 1]\<close>, and it is 0 exactly when the combined token
  sequence has at most one token: a sequence of \<open>n \<ge> 1\<close> tokens has at most \<open>n - 1\<close>
  bigrams, and a single token has none. The value is the integer 0 or a finite float.
\<close>

theorem evaluate_diversity_range:
  "0 \<le> num (evaluate_diversity texts) \<and> num (evaluate_diversity texts) \<le> 1 \<and>
   (num (evaluate_diversity texts) = 0 \<longleftrightarrow> length (all_tokens_of texts) \<le> 1) \<and>
   (evaluate_diversity texts = PyInt 0 \<or> (\<exists>x. evaluate_diversity texts = PyFloat (Finite x)))"
proof (cases "all_tokens_of texts = []")
  case True
  then show ?thesis by (simp add: evaluate_diversity_def)
next
  case False
  let ?toks = "all_tokens_of texts"
  let ?u = "remdups (ngrams ?toks 2)"
  have len: "0 < length ?toks" using False by simp
  have "length ?u \<le> length (ngrams ?toks 2)" by (rule length_remdups_leq)
  then have le: "length ?u \<le> length ?toks" by (simp add: length_ngrams)
  have res: "evaluate_diversity texts =
      PyFloat (Finite (real (length ?u) / real (length ?toks)))"
    using False by (simp add: evaluate_diversity_def Let_def)
  have zero: "length ?u = 0 \<longleftrightarrow> length ?toks \<le> 1"
    by (simp add: ngrams_empty_iff)
  show ?thesis using len le zero by (simp add: res)
qed

text \<open>The claim as it is written fails on the one-token text \<^verbatim>\<open>"a"\<close>: the token sequence
  is not empty and the diversity is \<^verbatim>\<open>0 / 1\<close>.\<close>

theorem evaluate_diversity_single_token:
  "num (evaluate_diversity [lit ''a'']) = 0 \<and> all_tokens_of [lit ''a''] \<noteq> []"
  by (simp add: evaluate_diversity_def all_tokens_of_def str_split_def lit_def isspace_def
      ngrams_def)

section \<open>Semantic similarity and its thresholds\<close>

lemma dot_commute: "dot x y = dot y x"
  unfolding dot_def
proof (induction x arbitrary: y)
  case Nil
  then show ?case by simp
next
  case (Cons a x)
  then show ?case by (cases y) (simp_all add: mult.commute)
qed

lemma cosine_similarity_commute: "cosine_similarity x y = cosine_similarity y x"
  by (auto simp: cosine_similarity_def dot_commute)

lemma row_norm_unit: "row_norm [1, 0] = 1"
  by (simp add: row_norm_def)

lemma stub_similarity: "evaluate_semantic_similarity stub_evaluator a b = Inr 1"
  by (simp add: evaluate_semantic_similarity_def stub_evaluator_def stub_encoder_def getitem_def
      cosine_similarity_def normalize_def row_norm_unit dot_def)

text \<open>
  Claim C6. \<^verbatim>\<open>evaluate_semantic_similarity(a, b)\<close> equals
  \<^verbatim>\<open>evaluate_semantic_similarity(b, a)\<close>: the cosine similarity of the two sentence
  embeddings is symmetric. The encoder is called on the batch \<^verbatim>\<open>[a, b]\<close> in one case and
  on \<^verbatim>\<open>[b, a]\<close> in the other; the hypothesis is that it embeds each sentence by itself,
  whatever its place in the batch.
\<close>

theorem evaluate_semantic_similarity_symmetric:
  assumes "sentence_transformer self [a, b] = Inr [ea, eb]"
    and "sentence_transformer self [b, a] = Inr [eb, ea]"
  shows "evaluate_semantic_similarity self a b = evaluate_semantic_similarity self b a"
  using assms
  by (simp add: evaluate_semantic_similarity_def getitem_def cosine_similarity_commute)

theorem evaluate_semantic_similarity_symmetric_witness:
  "sentence_transformer stub_evaluator [lit ''a'', lit ''b''] = Inr [[1, 0], [1, 0]] \<and>
   evaluate_semantic_similarity stub_evaluator (lit ''a'') (lit ''b'') =
   evaluate_semantic_similarity stub_evaluator (lit ''b'') (lit ''a'')"
proof -
  have h1: "sentence_transformer stub_evaluator [lit ''a'', lit ''b''] = Inr [[1, 0], [1, 0]]"
    by (simp add: stub_evaluator_def stub_encoder_def)
  have h2: "sentence_transformer stub_evaluator [lit ''b'', lit ''a''] = Inr [[1, 0], [1, 0]]"
    by (simp add: stub_evaluator_def stub_encoder_def)
  show ?thesis using h1 evaluate_semantic_similarity_symmetric [OF h1 h2] by simp
qed

text \<open>
  Claim C3. \<^verbatim>\<open>evaluate_factual_consistency(a, b, t)\<close> returns true if and only if
  \<^verbatim>\<open>evaluate_semantic_similarity(a, b)\<close> returns a value \<open>\<ge> t\<close>, false if and only if it
  returns a value \<open>< t\<close>, and raises exactly what the similarity raises. So the set of
  pairs judged consistent does not grow when the threshold does.
\<close>

theorem evaluate_factual_consistency_threshold:
  "(evaluate_factual_consistency self a b t = Inr True \<longleftrightarrow>
      (\<exists>s. evaluate_semantic_similarity self a b = Inr s \<and> s \<ge> t)) \<and>
   (evaluate_factual_consistency self a b t = Inr False \<longleftrightarrow>
      (\<exists>s. evaluate_semantic_similarity self a b = Inr s \<and> s < t)) \<and>
   (evaluate_factual_consistency self a b t = Inl e \<longleftrightarrow>
      evaluate_semantic_similarity self a b = Inl e) \<and>
   (t \<le> t' \<longrightarrow>
      {(x, y). evaluate_factual_consistency self x y t' = Inr True}
        \<subseteq> {(x, y). evaluate_factual_consistency self x y t = Inr True})"
proof -
  have iff: "evaluate_factual_consistency self x y u = Inr True \<longleftrightarrow>
      (\<exists>s. evaluate_semantic_similarity self x y = Inr s \<and> s \<ge> u)" for x y u
    by (cases "evaluate_semantic_similarity self x y")
       (simp_all add: evaluate_factual_consistency_def)
  have neg: "evaluate_factual_consistency self a b t = Inr False \<longleftrightarrow>
      (\<exists>s. evaluate_semantic_similarity self a b = Inr s \<and> s < t)"
    by (cases "evaluate_semantic_similarity self a b")
       (simp_all add: evaluate_factual_consistency_def not_le)
  have err: "evaluate_factual_consistency self a b t = Inl e \<longleftrightarrow>
      evaluate_semantic_similarity self a b = Inl e"
    by (cases "evaluate_semantic_similarity self a b")
       (simp_all add: evaluate_factual_consistency_def)
  have mono: "t \<le> t' \<longrightarrow>
      {(x, y). evaluate_factual_consistency self x y t' = Inr True}
        \<subseteq> {(x, y). evaluate_factual_consistency self x y t = Inr True}"
    unfolding iff by auto
  show ?thesis using iff [of a b t] neg err mono by blast
qed

theorem evaluate_factual_consistency_threshold_witness:
  "evaluate_factual_consistency stub_evaluator (lit ''a'') (lit ''b'') (1 / 2) = Inr True \<and>
   (1 / 2 :: real) \<le> 3 / 4 \<and>
   {(x, y). evaluate_factual_consistency stub_evaluator x y (3 / 4) = Inr True}
     \<subseteq> {(x, y). evaluate_factual_consistency stub_evaluator x y (1 / 2) = Inr True}"
proof -
  have le: "(1 / 2 :: real) \<le> 3 / 4" by simp
  have "evaluate_semantic_similarity stub_evaluator (lit ''a'') (lit ''b'') = Inr 1 \<and>
      (1 / 2 :: real) \<le> 1"
    by (simp add: stub_similarity)
  then show ?thesis
    using le evaluate_factual_consistency_threshold
      [of stub_evaluator "lit ''a''" "lit ''b''" "1 / 2" ZeroDivisionError "3 / 4"]
    by blast
qed

section \<open>Toxicity\<close>

text \<open>
  Claim C4. When the classifier's top prediction has a score in \<open>[0, 1]\<close> (a probability),
  \<^verbatim>\<open>evaluate_toxicity\<close> returns a value in \<open>[0, 1]\<close>: 0 when the label of that prediction
  does not contain \<^verbatim>\<open>toxic\<close>, and the prediction's score unchanged when it does.
\<close>

theorem evaluate_toxicity_range:
  assumes "call_text_classification (toxicity_pipeline self) t = Inr (p # ps)"
    and "0 \<le> score p" and "score p \<le> 1"
  shows "\<exists>v. evaluate_toxicity self t = Inr v \<and> 0 \<le> v \<and> v \<le> 1 \<and>
           (\<not> sublist (lit ''toxic'') (label p) \<longrightarrow> v = 0) \<and>
           (sublist (lit ''toxic'') (label p) \<longrightarrow> v = score p)"
  using assms by (simp add: evaluate_toxicity_def getitem_def)

theorem evaluate_toxicity_range_witness:
  "call_text_classification (toxicity_pipeline clean_classifier) (lit ''hi'') =
     Inr [\<lparr>label = lit ''neutral'', score = 9 / 10\<rparr>] \<and>
   \<not> sublist (lit ''toxic'') (lit ''neutral'') \<and>
   evaluate_toxicity clean_classifier (lit ''hi'') = Inr 0"
proof -
  let ?p = "\<lparr>label = lit ''neutral'', score = 9 / 10\<rparr>"
  have h1: "call_text_classification (toxicity_pipeline clean_classifier) (lit ''hi'') =
      Inr (?p # [])"
    by (simp add: clean_classifier_def)
  have h2: "0 \<le> score ?p" and h3: "score ?p \<le> 1" by simp_all
  have no: "\<not> sublist (lit ''toxic'') (lit ''neutral'')"
    by (simp add: lit_def sublist_Cons_right)
  show ?thesis using h1 no evaluate_toxicity_range [OF h1 h2 h3] by auto
qed

text \<open>With the label \<^verbatim>\<open>severe_toxic\<close> the score passes through.\<close>

lemma evaluate_toxicity_stub: "evaluate_toxicity stub_evaluator t = Inr (1 / 2)"
  by (simp add: evaluate_toxicity_def stub_evaluator_def stub_toxicity_def getitem_def lit_def
      sublist_Cons_right)

section \<open>Perplexity of a one-token text\<close>

lemma py_range_one: "py_range (Suc 0) 512 = [0]"
  by (simp add: py_range_def)

lemma mask_targets_short: "length ids \<le> 1 \<Longrightarrow> mask_targets ids (Suc 0) = ids"
  by (simp add: mask_targets_def)

lemma fmul_nat_one [simp]: "fmul_nat x (Suc 0) = x"
  by (cases x) simp_all

lemma fdiv_nat_one [simp]: "fdiv_nat x (Suc 0) = x"
  by (cases x) simp_all

lemma fsum_single [simp]: "fsum [x] = x"
  by (cases x) (simp_all add: fsum_def)

lemma perplexity_loop_single:
  "perplexity_loop lm [t] [0] ([], None) =
     (let w = (if stride \<le> n_positions lm then [t] else [])
      in bind_err (forward lm w w) (\<lambda>loss. Inr ([loss], Some 1)))"
proof (cases "stride \<le> n_positions lm")
  case True
  then have b: "nat (max (int 0 + int stride - int (n_positions lm)) 0) = 0"
    by simp
  have e: "min (0 + stride) (length [t]) = Suc 0" by (simp add: stride_def)
  show ?thesis
    using True unfolding perplexity_loop.simps Let_def b e
    by (simp add: slice_def mask_targets_short)
next
  case False
  then have b: "0 < nat (max (int 0 + int stride - int (n_positions lm)) 0)"
    by simp
  have e: "min (0 + stride) (length [t]) = Suc 0" by (simp add: stride_def)
  show ?thesis
    using False b unfolding perplexity_loop.simps Let_def e
    by (simp add: slice_def mask_targets_short)
qed

lemma perplexity_single_window:
  assumes "gpt2_tokenizer self txt = Inr [t]"
  shows "evaluate_perplexity self txt =
     (let w = (if stride \<le> n_positions (gpt2_model self) then [t] else [])
      in bind_err (forward (gpt2_model self) w w) (\<lambda>loss. Inr (fexp loss)))"
proof -
  have r: "py_range (length [t]) stride = [0]" by (simp add: py_range_one stride_def)
  show ?thesis
    unfolding evaluate_perplexity_def assms bind_err_Inr r perplexity_loop_single Let_def
    by (cases "forward (gpt2_model self)
          (if stride \<le> n_positions (gpt2_model self) then [t] else [])
          (if stride \<le> n_positions (gpt2_model self) then [t] else [])") simp_all
qed

text \<open>
  Claim C8. When the tokenizer yields exactly one token, \<^verbatim>\<open>evaluate_perplexity\<close> makes
  one forward pass, on that token with nothing masked, and returns \<open>exp\<close> of its loss,
  whatever the loss is, NaN included: the loop runs once with \<open>begin_loc = 0\<close>,
  \<open>end_loc = 1\<close> and \<open>trg_len = 1\<close>, the mask \<^verbatim>\<open>[:-1]\<close> of a one-item row is empty, and the
  final divisor is 1. The forward pass returns (GPT-2 returns the loss NaN on one token),
  and the context length of the model is at least the stride (GPT-2 has 1024).
\<close>

theorem evaluate_perplexity_single_token:
  assumes "gpt2_tokenizer self txt = Inr [t]"
    and "stride \<le> n_positions (gpt2_model self)"
    and "forward (gpt2_model self) [t] [t] = Inr loss"
  shows "evaluate_perplexity self txt = Inr (fexp loss)"
  using perplexity_single_window [OF assms(1)] assms(2,3) by simp

text \<open>On the stand-in, as on GPT-2, the loss of the one-token window is NaN, and the
  method returns NaN.\<close>

theorem evaluate_perplexity_single_token_witness:
  "gpt2_tokenizer stub_evaluator (lit ''a'') = Inr [97] \<and>
   stride \<le> n_positions (gpt2_model stub_evaluator) \<and>
   forward (gpt2_model stub_evaluator) [97] [97] = Inr NaN \<and>
   evaluate_perplexity stub_evaluator (lit ''a'') = Inr NaN"
proof -
  have h1: "gpt2_tokenizer stub_evaluator (lit ''a'') = Inr [97]"
    by (simp add: stub_evaluator_def stub_tokenizer_def lit_def)
  have h2: "stride \<le> n_positions (gpt2_model stub_evaluator)"
    by (simp add: stub_evaluator_def stub_lm_def stride_def)
  have h3: "forward (gpt2_model stub_evaluator) [97] [97] = Inr NaN"
    by (simp add: stub_evaluator_def stub_lm_def)
  show ?thesis
    using h1 h2 h3 evaluate_perplexity_single_token [OF h1 h2 h3] by simp
qed

text \<open>An empty tokenization, in contrast, raises: the loop does not run and
  \<^verbatim>\<open>torch.stack\<close> gets an empty list.\<close>

lemma evaluate_perplexity_empty:
  "gpt2_tokenizer self txt = Inr [] \<Longrightarrow> evaluate_perplexity self txt = Inl RuntimeError"
  by (simp add: evaluate_perplexity_def py_range_def stride_def)

section \<open>The averaging divisions\<close>

lemma map_err_length: "map_err f xs = Inr ys \<Longrightarrow> length ys = length xs"
proof (induction xs arbitrary: ys)
  case Nil
  then show ?case by simp
next
  case (Cons x xs)
  then show ?case by (auto simp: bind_err_eq_Inr)
qed

lemma truediv_pos: "0 < n \<Longrightarrow> truediv a n = Inr (a / real n)"
  by (simp add: truediv_def)

text \<open>
  Claim C10, as the code has it. For non-empty candidates and references of equal length
  the number of scored pairs is positive, and each of \<^verbatim>\<open>evaluate_bleu_rouge\<close>,
  \<^verbatim>\<open>evaluate_meteor\<close> and \<^verbatim>\<open>evaluate_chrf\<close> returns the mean of the scores whenever the
  scorers return. On empty inputs none returns a default: \<^verbatim>\<open>evaluate_meteor\<close> and
  \<^verbatim>\<open>evaluate_chrf\<close> raise \<^verbatim>\<open>ZeroDivisionError\<close>; \<^verbatim>\<open>evaluate_bleu_rouge\<close> calls
  \<^verbatim>\<open>corpus_bleu\<close> before it divides, and raises what \<^verbatim>\<open>corpus_bleu\<close> raises if it raises,
  \<^verbatim>\<open>ZeroDivisionError\<close> if it returns.
\<close>

theorem averaging_divisions:
  "(candidates \<noteq> [] \<and> length candidates = length references \<longrightarrow>
      0 < length (zip references candidates) \<and>
      (\<forall>bleu scores. corpus_bleu L candidates [references] = Inr bleu \<and>
          rouge_scores L candidates references = Inr scores \<longrightarrow>
          length scores = length (zip references candidates) \<and>
          evaluate_bleu_rouge L candidates references =
            Inr (bleu, sum_list scores / real (length scores))) \<and>
      (\<forall>scores. meteor_scores L candidates references = Inr scores \<longrightarrow>
          length scores = length (zip references candidates) \<and>
          evaluate_meteor L candidates references = Inr (sum_list scores / real (length scores))) \<and>
      (\<forall>scores. chrf_scores L candidates references = Inr scores \<longrightarrow>
          length scores = length (zip references candidates) \<and>
          evaluate_chrf L candidates references = Inr (sum_list scores / real (length scores)))) \<and>
   evaluate_bleu_rouge L [] [] =
     bind_err (corpus_bleu L [] [[]]) (\<lambda>bleu. Inl ZeroDivisionError) \<and>
   evaluate_meteor L [] [] = Inl ZeroDivisionError \<and>
   evaluate_chrf L [] [] = Inl ZeroDivisionError"
proof -
  have empty_bleu: "evaluate_bleu_rouge L [] [] =
      bind_err (corpus_bleu L [] [[]]) (\<lambda>bleu. Inl ZeroDivisionError)"
    by (simp add: evaluate_bleu_rouge_def rouge_scores_def truediv_def)
  have empty_meteor: "evaluate_meteor L [] [] = Inl ZeroDivisionError"
    by (simp add: evaluate_meteor_def meteor_scores_def truediv_def)
  have empty_chrf: "evaluate_chrf L [] [] = Inl ZeroDivisionError"
    by (simp add: evaluate_chrf_def chrf_scores_def truediv_def)
  have nonempty: "0 < length (zip references candidates) \<and>
      (\<forall>bleu scores. corpus_bleu L candidates [references] = Inr bleu \<and>
          rouge_scores L candidates references = Inr scores \<longrightarrow>
          length scores = length (zip references candidates) \<and>
          evaluate_bleu_rouge L candidates references =
            Inr (bleu, sum_list scores / real (length scores))) \<and>
      (\<forall>scores. meteor_scores L candidates references = Inr scores \<longrightarrow>
          length scores = length (zip references candidates) \<and>
          evaluate_meteor L candidates references = Inr (sum_list scores / real (length scores))) \<and>
      (\<forall>scores. chrf_scores L candidates references = Inr scores \<longrightarrow>
          length scores = length (zip references candidates) \<and>
          evaluate_chrf L candidates references = Inr (sum_list scores / real (length scores)))"
    if ne: "candidates \<noteq> []" and eq: "length candidates = length references"
  proof -
    have pos: "0 < length (zip references candidates)" using ne eq by auto
    have rouge: "length scores = length (zip references candidates) \<and>
          evaluate_bleu_rouge L candidates references =
            Inr (bleu, sum_list scores / real (length scores))"
      if "corpus_bleu L candidates [references] = Inr bleu"
        and "rouge_scores L candidates references = Inr scores" for bleu scores
    proof -
      have len: "length scores = length (zip references candidates)"
        using that(2) unfolding rouge_scores_def by (rule map_err_length)
      then have "0 < length scores" using pos by simp
      then show ?thesis using that len by (simp add: evaluate_bleu_rouge_def truediv_pos)
    qed
    have meteor: "length scores = length (zip references candidates) \<and>
          evaluate_meteor L candidates references = Inr (sum_list scores / real (length scores))"
      if "meteor_scores L candidates references = Inr scores" for scores
    proof -
      have len: "length scores = length (zip references candidates)"
        using that unfolding meteor_scores_def by (rule map_err_length)
      then have "0 < length scores" using pos by simp
      then show ?thesis using that len by (simp add: evaluate_meteor_def truediv_pos)
    qed
    have chrf: "length scores = length (zip references candidates) \<and>
          evaluate_chrf L candidates references = Inr (sum_list scores / real (length scores))"
      if "chrf_scores L candidates references = Inr scores" for scores
    proof -
      have len: "length scores = length (zip references candidates)"
        using that unfolding chrf_scores_def by (rule map_err_length)
      then have "0 < length scores" using pos by simp
      then show ?thesis using that len by (simp add: evaluate_chrf_def truediv_pos)
    qed
    show ?thesis using pos rouge meteor chrf by blast
  qed
  show ?thesis using empty_bleu empty_meteor empty_chrf nonempty by blast
qed

lemma stub_rouge_scores: "rouge_scores stub_library [lit ''a''] [lit ''b''] = Inr [0]"
  by (simp add: rouge_scores_def stub_library_def)

lemma stub_meteor_scores: "meteor_scores stub_library [lit ''a''] [lit ''b''] = Inr [0]"
  by (simp add: meteor_scores_def stub_library_def)

lemma stub_chrf_scores: "chrf_scores stub_library [lit ''a''] [lit ''b''] = Inr [0]"
  by (simp add: chrf_scores_def stub_library_def)

lemma stub_corpus_bleu: "corpus_bleu stub_library c r = Inr 0"
  by (simp add: stub_library_def)

text \<open>The claim C10 as it is written fails for \<^verbatim>\<open>evaluate_bleu_rouge\<close>: with a BLEU
  scorer that raises an \<^verbatim>\<open>IndexError\<close> on an empty list of hypotheses, as sacrebleu's does,
  the method raises that \<^verbatim>\<open>IndexError\<close> on empty inputs and never reaches its division.\<close>

theorem evaluate_bleu_rouge_empty_index_error:
  "evaluate_bleu_rouge checking_bleu_library [] [] = Inl IndexError \<and>
   evaluate_bleu_rouge checking_bleu_library [] [] \<noteq> Inl ZeroDivisionError"
  by (simp add: evaluate_bleu_rouge_def checking_bleu_library_def)

theorem averaging_divisions_witness:
  "[lit ''a''] \<noteq> [] \<and> length [lit ''a''] = length [lit ''b''] \<and>
   evaluate_bleu_rouge stub_library [lit ''a''] [lit ''b''] = Inr (0, 0) \<and>
   evaluate_meteor stub_library [lit ''a''] [lit ''b''] = Inr 0 \<and>
   evaluate_chrf stub_library [lit ''a''] [lit ''b''] = Inr 0 \<and>
   evaluate_bleu_rouge stub_library [] [] = Inl ZeroDivisionError \<and>
   evaluate_meteor stub_library [] [] = Inl ZeroDivisionError \<and>
   evaluate_chrf stub_library [] [] = Inl ZeroDivisionError"
  using averaging_divisions [of "[lit ''a'']" "[lit ''b'']" stub_library]
    stub_rouge_scores stub_meteor_scores stub_chrf_scores
    stub_corpus_bleu [of "[lit ''a'']" "[[lit ''b'']]"] stub_corpus_bleu [of "[]" "[[]]"]
  by simp

section \<open>The aggregation\<close>

lemma evaluate_all_Inr:
  assumes "evaluate_all L self q r ref = Inr report"
  shows "\<exists>bleu rouge1 bert_p bert_r bert_f1 perplexity racial_bias meteor chrf flesch_ease
           flesch_grade semantic_similarity factual_consistency question_relevance
           context_relevance toxicity.
      evaluate_bleu_rouge L [r] [ref] = Inr (bleu, rouge1) \<and>
      evaluate_bert_score L [r] [ref] = Inr (bert_p, bert_r, bert_f1) \<and>
      evaluate_perplexity self r = Inr perplexity \<and>
      evaluate_racial_bias self r = Inr racial_bias \<and>
      evaluate_meteor L [r] [ref] = Inr meteor \<and>
      evaluate_chrf L [r] [ref] = Inr chrf \<and>
      evaluate_readability L r = Inr (flesch_ease, flesch_grade) \<and>
      evaluate_semantic_similarity self r ref = Inr semantic_similarity \<and>
      evaluate_factual_consistency self r ref factual_consistency_threshold =
        Inr factual_consistency \<and>
      evaluate_question_relevance self q r relevance_threshold = Inr question_relevance \<and>
      evaluate_question_relevance self ref r relevance_threshold = Inr context_relevance \<and>
      evaluate_toxicity self r = Inr toxicity \<and>
      report =
        [(''BLEU'', PyFloat (Finite bleu)),
         (''ROUGE-1'', PyFloat (Finite rouge1)),
         (''BERT P'', PyFloat (Finite bert_p)),
         (''BERT R'', PyFloat (Finite bert_r)),
         (''BERT F1'', PyFloat (Finite bert_f1)),
         (''Perplexity'', PyFloat perplexity),
         (''Diversity'', evaluate_diversity [r]),
         (''Racial Bias'', PyFloat (Finite racial_bias)),
         (''METEOR'', PyFloat (Finite meteor)),
         (''CHRF'', PyFloat (Finite chrf)),
         (''Flesch Reading Ease'', PyFloat (Finite flesch_ease)),
         (''Flesch-Kincaid Grade'', PyFloat (Finite flesch_grade)),
         (''Semantic Similarity'', NumpyFloat32 semantic_similarity),
         (''Factual Consistency'', NumpyBool factual_consistency),
         (''Question Relevance'', NumpyBool question_relevance),
         (''Context Relevance'', NumpyBool context_relevance),
         (''Answer Relevance'', NumpyBool question_relevance),
         (''Toxicity'', PyFloat (Finite toxicity))]"
  using assms unfolding evaluate_all_def Let_def
  by (auto simp: bind_err_eq_Inr)

lemma evaluate_all_first_raised:
  assumes "first_raised (metric_calls L self q r ref) = Some e"
  shows "evaluate_all L self q r ref = Inl e"
  using assms unfolding evaluate_all_def metric_calls_def Let_def
  by (auto simp: bind_err_def split: sum.splits prod.splits)

lemma first_raised_exists: "Some e' \<in> set calls \<Longrightarrow> \<exists>e. first_raised calls = Some e"
  by (induction calls rule: first_raised.induct) auto

lemma first_raised_member: "first_raised calls = Some e \<Longrightarrow> Some e \<in> set calls"
  by (induction calls rule: first_raised.induct) auto

text \<open>
  Claim C9. If any metric call made inside \<^verbatim>\<open>evaluate_all\<close> raises, then
  \<^verbatim>\<open>evaluate_all\<close> raises too: it returns no report, and what it raises is the
  exception of the first call, in the order of the calls, that raised.
\<close>

theorem evaluate_all_no_partial_report:
  assumes "Some e' \<in> set (metric_calls L self q r ref)"
  shows "\<exists>e. Some e \<in> set (metric_calls L self q r ref) \<and>
           first_raised (metric_calls L self q r ref) = Some e \<and>
           evaluate_all L self q r ref = Inl e"
proof -
  from assms obtain e where e: "first_raised (metric_calls L self q r ref) = Some e"
    using first_raised_exists by blast
  then have "Some e \<in> set (metric_calls L self q r ref)" by (rule first_raised_member)
  moreover have "evaluate_all L self q r ref = Inl e" using e by (rule evaluate_all_first_raised)
  ultimately show ?thesis using e by blast
qed

section \<open>The shape of the report\<close>

lemma diversity_float_iff:
  "(if str_split r = [] then evaluate_diversity [r] = PyInt 0
    else is_float (evaluate_diversity [r]))"
  by (simp add: evaluate_diversity_def all_tokens_of_def Let_def)

text \<open>
  Whenever \<^verbatim>\<open>evaluate_all\<close> returns, the report has exactly the 18 keys, in the order of
  the dictionary literal; the values of Factual Consistency and of the three relevance
  keys are booleans; the values of the 13 keys of \<open>float_keys\<close> are floats; and the value
  of Diversity is what \<^verbatim>\<open>evaluate_diversity\<close> returns on the response: a float when the
  response has at least one whitespace-separated token, the integer 0 when it has none.
\<close>

lemma evaluate_all_report:
  assumes "evaluate_all L self q r ref = Inr report"
  shows "map fst report = report_keys \<and>
         (\<forall>k \<in> set bool_keys. \<exists>v. map_of report k = Some v \<and> is_bool v) \<and>
         (\<forall>k \<in> set float_keys. \<exists>v. map_of report k = Some v \<and> is_float v) \<and>
         map_of report ''Diversity'' = Some (evaluate_diversity [r]) \<and>
         (if str_split r = [] then evaluate_diversity [r] = PyInt 0
          else is_float (evaluate_diversity [r]))"
proof -
  from evaluate_all_Inr [OF assms] obtain bleu rouge1 bert_p bert_r bert_f1 perplexity
    racial_bias meteor chrf flesch_ease flesch_grade semantic_similarity factual_consistency
    question_relevance context_relevance toxicity
    where rep: "report =
        [(''BLEU'', PyFloat (Finite bleu)),
         (''ROUGE-1'', PyFloat (Finite rouge1)),
         (''BERT P'', PyFloat (Finite bert_p)),
         (''BERT R'', PyFloat (Finite bert_r)),
         (''BERT F1'', PyFloat (Finite bert_f1)),
         (''Perplexity'', PyFloat perplexity),
         (''Diversity'', evaluate_diversity [r]),
         (''Racial Bias'', PyFloat (Finite racial_bias)),
         (''METEOR'', PyFloat (Finite meteor)),
         (''CHRF'', PyFloat (Finite chrf)),
         (''Flesch Reading Ease'', PyFloat (Finite flesch_ease)),
         (''Flesch-Kincaid Grade'', PyFloat (Finite flesch_grade)),
         (''Semantic Similarity'', NumpyFloat32 semantic_similarity),
         (''Factual Consistency'', NumpyBool factual_consistency),
         (''Question Relevance'', NumpyBool question_relevance),
         (''Context Relevance'', NumpyBool context_relevance),
         (''Answer Relevance'', NumpyBool question_relevance),
         (''Toxicity'', PyFloat (Finite toxicity))]"
    by blast
  have keys: "map fst report = report_keys" by (simp add: rep report_keys_def)
  have bools: "\<forall>k \<in> set bool_keys. \<exists>v. map_of report k = Some v \<and> is_bool v"
    by (simp add: rep bool_keys_def)
  have floats: "\<forall>k \<in> set float_keys. \<exists>v. map_of report k = Some v \<and> is_float v"
    by (simp add: rep float_keys_def)
  have div: "map_of report ''Diversity'' = Some (evaluate_diversity [r])"
    by (simp add: rep)
  show ?thesis using keys bools floats div diversity_float_iff [of r] by blast
qed

lemma report_keys_partition:
  "distinct report_keys \<and> length report_keys = 18 \<and>
   set report_keys = set bool_keys \<union> set float_keys \<union> {''Diversity''}"
  by (simp add: report_keys_def bool_keys_def float_keys_def insert_commute)

text \<open>
  Claim C1 says that every value of the report but the four booleans is a float. For
  Diversity the code misses it: \<^verbatim>\<open>evaluate_diversity\<close> ends in \<^verbatim>\<open>... if all_tokens else 0\<close>,
  an integer beside the float of the other branch, where \<^verbatim>\<open>evaluate_toxicity\<close> has
  \<^verbatim>\<open>else 0.0\<close>. Whenever \<^verbatim>\<open>evaluate_all\<close> returns on a response without a
  whitespace-separated token, the value of Diversity is the integer 0, which is not a
  float.
\<close>

theorem evaluate_all_diversity_int:
  assumes "evaluate_all L self q r ref = Inr report" and "str_split r = []"
  shows "map_of report ''Diversity'' = Some (PyInt 0) \<and> \<not> is_float (PyInt 0)"
  using evaluate_all_report [OF assms(1)] assms(2) by simp

text \<open>
  Claim C5. The three relevance methods return equal results on equal arguments, namely
  the thresholded semantic similarity; and in the report of \<^verbatim>\<open>evaluate_all\<close> the values of
  Context Relevance and Answer Relevance are results of \<^verbatim>\<open>evaluate_question_relevance\<close>, on
  \<^verbatim>\<open>(reference, response)\<close> and \<^verbatim>\<open>(question, response)\<close>, the latter being the value of
  Question Relevance as well.
\<close>

theorem relevance_methods_equal:
  "evaluate_question_relevance self x y t = evaluate_context_relevance self x y t \<and>
   evaluate_context_relevance self x y t = evaluate_answer_relevance self x y t \<and>
   evaluate_answer_relevance self x y t =
     bind_err (evaluate_semantic_similarity self x y) (\<lambda>s. Inr (s \<ge> t)) \<and>
   (\<forall>report. evaluate_all L self q r ref = Inr report \<longrightarrow>
      (\<exists>cr ar. evaluate_question_relevance self ref r relevance_threshold = Inr cr \<and>
         evaluate_question_relevance self q r relevance_threshold = Inr ar \<and>
         map_of report ''Question Relevance'' = Some (NumpyBool ar) \<and>
         map_of report ''Context Relevance'' = Some (NumpyBool cr) \<and>
         map_of report ''Answer Relevance'' = Some (NumpyBool ar)))"
proof -
  have same: "evaluate_question_relevance self x y t = evaluate_context_relevance self x y t"
    "evaluate_context_relevance self x y t = evaluate_answer_relevance self x y t"
    "evaluate_answer_relevance self x y t =
       bind_err (evaluate_semantic_similarity self x y) (\<lambda>s. Inr (s \<ge> t))"
    by (simp_all add: evaluate_question_relevance_def evaluate_context_relevance_def
        evaluate_answer_relevance_def)
  have agg: "\<exists>cr ar. evaluate_question_relevance self ref r relevance_threshold = Inr cr \<and>
         evaluate_question_relevance self q r relevance_threshold = Inr ar \<and>
         map_of report ''Question Relevance'' = Some (NumpyBool ar) \<and>
         map_of report ''Context Relevance'' = Some (NumpyBool cr) \<and>
         map_of report ''Answer Relevance'' = Some (NumpyBool ar)"
    if "evaluate_all L self q r ref = Inr report" for report
    using evaluate_all_Inr [OF that] by auto
  show ?thesis using same agg by blast
qed


section \<open>Running the methods on the stand-ins\<close>

lemma stub_bleu_rouge: "evaluate_bleu_rouge stub_library [r] [ref] = Inr (0, 0)"
  by (simp add: evaluate_bleu_rouge_def rouge_scores_def stub_library_def truediv_def)

lemma stub_bert_score: "evaluate_bert_score stub_library c r = Inr (0, 0, 0)"
  by (simp add: evaluate_bert_score_def stub_library_def)

lemma stub_perplexity:
  assumes "gpt2_model self = stub_lm" and "gpt2_tokenizer self = stub_tokenizer"
  shows "evaluate_perplexity self [c] = Inr NaN"
proof -
  have tok: "gpt2_tokenizer self [c] = Inr [int c]"
    by (simp add: assms stub_tokenizer_def)
  show ?thesis
    unfolding perplexity_single_window [OF tok]
    by (simp add: assms stub_lm_def stride_def)
qed

lemma stub_racial_bias:
  assumes "bias_pipeline self = stub_bias"
  shows "evaluate_racial_bias self r = Inr (1 / 2)"
  by (simp add: evaluate_racial_bias_def assms stub_bias_def getitem_def)

lemma stub_meteor: "evaluate_meteor stub_library [r] [ref] = Inr 0"
  by (simp add: evaluate_meteor_def meteor_scores_def stub_library_def truediv_def)

lemma stub_chrf: "evaluate_chrf stub_library [r] [ref] = Inr 0"
  by (simp add: evaluate_chrf_def chrf_scores_def stub_library_def truediv_def)

lemma stub_readability: "evaluate_readability stub_library r = Inr (0, 0)"
  by (simp add: evaluate_readability_def stub_library_def)

lemma stub_encoder_similarity:
  assumes "sentence_transformer self = stub_encoder"
  shows "evaluate_semantic_similarity self a b = Inr 1"
  by (simp add: evaluate_semantic_similarity_def assms stub_encoder_def getitem_def
      cosine_similarity_def normalize_def row_norm_unit dot_def)

lemma stub_factual_consistency:
  assumes "sentence_transformer self = stub_encoder"
  shows "evaluate_factual_consistency self a b factual_consistency_threshold = Inr True"
  by (simp add: evaluate_factual_consistency_def stub_encoder_similarity [OF assms]
      factual_consistency_threshold_def)

lemma stub_question_relevance:
  assumes "sentence_transformer self = stub_encoder"
  shows "evaluate_question_relevance self a b relevance_threshold = Inr True"
  by (simp add: evaluate_question_relevance_def stub_encoder_similarity [OF assms]
      relevance_threshold_def)

lemma stub_fields:
  "gpt2_model stub_evaluator = stub_lm" "gpt2_tokenizer stub_evaluator = stub_tokenizer"
  "bias_pipeline stub_evaluator = stub_bias" "sentence_transformer stub_evaluator = stub_encoder"
  "gpt2_model failing_toxicity = stub_lm" "gpt2_tokenizer failing_toxicity = stub_tokenizer"
  "bias_pipeline failing_toxicity = stub_bias"
  "sentence_transformer failing_toxicity = stub_encoder"
  by (simp_all add: stub_evaluator_def failing_toxicity_def)

lemma failing_toxicity_raises:
  "evaluate_toxicity failing_toxicity r = Inl (LibraryError ''toxicity'')"
  by (simp add: evaluate_toxicity_def failing_toxicity_def)

lemma stub_evaluate_all:
  "evaluate_all stub_library stub_evaluator q [c] ref =
     Inr [(''BLEU'', PyFloat (Finite 0)),
          (''ROUGE-1'', PyFloat (Finite 0)),
          (''BERT P'', PyFloat (Finite 0)),
          (''BERT R'', PyFloat (Finite 0)),
          (''BERT F1'', PyFloat (Finite 0)),
          (''Perplexity'', PyFloat NaN),
          (''Diversity'', evaluate_diversity [[c]]),
          (''Racial Bias'', PyFloat (Finite (1 / 2))),
          (''METEOR'', PyFloat (Finite 0)),
          (''CHRF'', PyFloat (Finite 0)),
          (''Flesch Reading Ease'', PyFloat (Finite 0)),
          (''Flesch-Kincaid Grade'', PyFloat (Finite 0)),
          (''Semantic Similarity'', NumpyFloat32 1),
          (''Factual Consistency'', NumpyBool True),
          (''Question Relevance'', NumpyBool True),
          (''Context Relevance'', NumpyBool True),
          (''Answer Relevance'', NumpyBool True),
          (''Toxicity'', PyFloat (Finite (1 / 2)))]"
  unfolding evaluate_all_def Let_def
  by (simp add: stub_bleu_rouge stub_bert_score stub_perplexity stub_racial_bias stub_meteor
      stub_chrf stub_readability stub_encoder_similarity stub_factual_consistency
      stub_question_relevance stub_fields evaluate_toxicity_stub)

lemma space_diversity: "evaluate_diversity [[32]] = PyInt 0"
  by (simp add: evaluate_diversity_def all_tokens_of_def str_split_def isspace_def)

lemma letter_diversity: "evaluate_diversity [[97]] = PyFloat (Finite 0)"
  by (simp add: evaluate_diversity_def all_tokens_of_def str_split_def isspace_def ngrams_def)

text \<open>On the response \<^verbatim>\<open>" "\<close>, which has no token, the method returns with the stand-in
  libraries, and the value of Diversity is the integer 0.\<close>

theorem evaluate_all_whitespace_response:
  "str_split (lit '' '') = [] \<and>
   evaluate_all stub_library stub_evaluator (lit ''q'') (lit '' '') (lit ''ref'') =
     Inr [(''BLEU'', PyFloat (Finite 0)),
          (''ROUGE-1'', PyFloat (Finite 0)),
          (''BERT P'', PyFloat (Finite 0)),
          (''BERT R'', PyFloat (Finite 0)),
          (''BERT F1'', PyFloat (Finite 0)),
          (''Perplexity'', PyFloat NaN),
          (''Diversity'', PyInt 0),
          (''Racial Bias'', PyFloat (Finite (1 / 2))),
          (''METEOR'', PyFloat (Finite 0)),
          (''CHRF'', PyFloat (Finite 0)),
          (''Flesch Reading Ease'', PyFloat (Finite 0)),
          (''Flesch-Kincaid Grade'', PyFloat (Finite 0)),
          (''Semantic Similarity'', NumpyFloat32 1),
          (''Factual Consistency'', NumpyBool True),
          (''Question Relevance'', NumpyBool True),
          (''Context Relevance'', NumpyBool True),
          (''Answer Relevance'', NumpyBool True),
          (''Toxicity'', PyFloat (Finite (1 / 2)))] \<and>
   \<not> is_float (PyInt 0)"
proof -
  have sp: "lit '' '' = [32]" by (simp add: lit_def)
  have tok: "str_split (lit '' '') = []"
    by (simp add: sp str_split_def isspace_def)
  have run: "evaluate_all stub_library stub_evaluator (lit ''q'') (lit '' '') (lit ''ref'') =
      Inr [(''BLEU'', PyFloat (Finite 0)),
           (''ROUGE-1'', PyFloat (Finite 0)),
           (''BERT P'', PyFloat (Finite 0)),
           (''BERT R'', PyFloat (Finite 0)),
           (''BERT F1'', PyFloat (Finite 0)),
           (''Perplexity'', PyFloat NaN),
           (''Diversity'', PyInt 0),
           (''Racial Bias'', PyFloat (Finite (1 / 2))),
           (''METEOR'', PyFloat (Finite 0)),
           (''CHRF'', PyFloat (Finite 0)),
           (''Flesch Reading Ease'', PyFloat (Finite 0)),
           (''Flesch-Kincaid Grade'', PyFloat (Finite 0)),
           (''Semantic Similarity'', NumpyFloat32 1),
           (''Factual Consistency'', NumpyBool True),
           (''Question Relevance'', NumpyBool True),
           (''Context Relevance'', NumpyBool True),
           (''Answer Relevance'', NumpyBool True),
           (''Toxicity'', PyFloat (Finite (1 / 2)))]"
    unfolding sp stub_evaluate_all by (simp add: space_diversity)
  show ?thesis
    using tok run evaluate_all_diversity_int [OF run tok] by simp
qed

text \<open>On the response \<^verbatim>\<open>"a"\<close> the value of Diversity is the float 0.\<close>

lemma evaluate_all_letter_response:
  "map fst (projr (evaluate_all stub_library stub_evaluator (lit ''q'') (lit ''a'') (lit ''ref'')))
     = report_keys \<and>
   map_of (projr (evaluate_all stub_library stub_evaluator (lit ''q'') (lit ''a'') (lit ''ref'')))
     ''Diversity'' = Some (PyFloat (Finite 0)) \<and>
   str_split (lit ''a'') \<noteq> []"
proof -
  have a: "lit ''a'' = [97]" by (simp add: lit_def)
  have run: "evaluate_all stub_library stub_evaluator (lit ''q'') (lit ''a'') (lit ''ref'') =
      Inr (projr (evaluate_all stub_library stub_evaluator (lit ''q'') (lit ''a'') (lit ''ref'')))"
    unfolding a stub_evaluate_all by simp
  have tok: "str_split (lit ''a'') \<noteq> []"
    by (simp add: a str_split_def isspace_def)
  show ?thesis
    using evaluate_all_report [OF run] tok by (simp add: a letter_diversity)
qed

theorem relevance_methods_equal_witness:
  "evaluate_question_relevance stub_evaluator (lit ''ref'') (lit ''a'') relevance_threshold =
     Inr True \<and>
   evaluate_context_relevance stub_evaluator (lit ''ref'') (lit ''a'') relevance_threshold =
     Inr True \<and>
   evaluate_answer_relevance stub_evaluator (lit ''ref'') (lit ''a'') relevance_threshold =
     Inr True \<and>
   map_of (projr (evaluate_all stub_library stub_evaluator (lit ''q'') (lit ''a'') (lit ''ref'')))
     ''Context Relevance'' = Some (NumpyBool True)"
proof -
  have a: "lit ''a'' = [97]" by (simp add: lit_def)
  have run: "evaluate_all stub_library stub_evaluator (lit ''q'') (lit ''a'') (lit ''ref'') =
      Inr (projr (evaluate_all stub_library stub_evaluator (lit ''q'') (lit ''a'') (lit ''ref'')))"
    unfolding a stub_evaluate_all by simp
  have qr: "evaluate_question_relevance stub_evaluator (lit ''ref'') (lit ''a'')
      relevance_threshold = Inr True"
    by (simp add: stub_question_relevance stub_fields)
  show ?thesis
    using run qr
      relevance_methods_equal [of stub_evaluator "lit ''ref''" "lit ''a''" relevance_threshold
        stub_library "lit ''q''" "lit ''a''" "lit ''ref''"]
    by auto
qed

lemma failing_toxicity_calls:
  "metric_calls stub_library failing_toxicity q [c] ref =
     [None, None, None, None, None, None, None, None, None, None, None, None, None,
      Some (LibraryError ''toxicity'')]"
  unfolding metric_calls_def
  by (simp add: stub_bleu_rouge stub_bert_score stub_perplexity stub_racial_bias stub_meteor
      stub_chrf stub_readability stub_encoder_similarity stub_factual_consistency
      stub_question_relevance stub_fields failing_toxicity_raises)

theorem evaluate_all_no_partial_report_witness:
  "Some (LibraryError ''toxicity'')
     \<in> set (metric_calls stub_library failing_toxicity (lit ''q'') (lit ''a'') (lit ''ref'')) \<and>
   evaluate_all stub_library failing_toxicity (lit ''q'') (lit ''a'') (lit ''ref'') =
     Inl (LibraryError ''toxicity'')"
proof -
  have a: "lit ''a'' = [97]" by (simp add: lit_def)
  have m: "Some (LibraryError ''toxicity'')
     \<in> set (metric_calls stub_library failing_toxicity (lit ''q'') (lit ''a'') (lit ''ref''))"
    unfolding a failing_toxicity_calls by simp
  show ?thesis
    using m evaluate_all_no_partial_report [OF m]
    unfolding a failing_toxicity_calls by simp
qed

section \<open>Construction loads the language model twice\<close>

text \<open>
  Claim C7 says that construction acquires each capability exactly once. The code calls
  \<^verbatim>\<open>load_gpt2_model\<close> twice: whenever construction succeeds, the loader calls are the
  seven below, and the causal language model and its tokenizer have each been loaded two
  times, the other three capabilities once.
\<close>

theorem init_loads_gpt2_twice:
  assumes "init L [] = (Inr ev, calls)"
  shows "calls =
       [LoadCausalLM ''gpt2'',
        LoadTokenizer ''gpt2'',
        LoadPipeline ''zero-shot-classification'' ''Hate-speech-CNERG/dehatebert-mono-english'',
        LoadCausalLM ''gpt2'',
        LoadTokenizer ''gpt2'',
        LoadSentenceTransformer ''all-mpnet-base-v2'',
        LoadPipeline ''text-classification'' ''unitary/toxic-bert''] \<and>
     map (count_list calls) capabilities = [2, 2, 1, 1, 1]"
proof -
  have "calls =
       [LoadCausalLM ''gpt2'',
        LoadTokenizer ''gpt2'',
        LoadPipeline ''zero-shot-classification'' ''Hate-speech-CNERG/dehatebert-mono-english'',
        LoadCausalLM ''gpt2'',
        LoadTokenizer ''gpt2'',
        LoadSentenceTransformer ''all-mpnet-base-v2'',
        LoadPipeline ''text-classification'' ''unitary/toxic-bert'']"
    using assms
    unfolding init_def load_gpt2_model_def bind_load_def call_loader_def return_load_def
    by (auto split: sum.splits prod.splits)
  then show ?thesis by (simp add: capabilities_def)
qed

theorem init_loads_gpt2_twice_witness:
  "init stub_library [] =
     (Inr stub_evaluator,
       [LoadCausalLM ''gpt2'',
        LoadTokenizer ''gpt2'',
        LoadPipeline ''zero-shot-classification'' ''Hate-speech-CNERG/dehatebert-mono-english'',
        LoadCausalLM ''gpt2'',
        LoadTokenizer ''gpt2'',
        LoadSentenceTransformer ''all-mpnet-base-v2'',
        LoadPipeline ''text-classification'' ''unitary/toxic-bert'']) \<and>
   count_list (snd (init stub_library [])) (LoadCausalLM ''gpt2'') = 2 \<and>
   count_list (snd (init stub_library [])) (LoadTokenizer ''gpt2'') = 2"
proof -
  have run: "init stub_library [] = (Inr stub_evaluator, snd (init stub_library []))"
    unfolding init_def load_gpt2_model_def bind_load_def call_loader_def return_load_def
    by (simp add: stub_library_def stub_evaluator_def)
  show ?thesis
    using init_loads_gpt2_twice [OF run] run by (simp add: capabilities_def)
qed

end
